theory Spec2Isabelle
  imports Complex_Main "HOL-Library.AList"
begin

section \<open>JavaScript values\<close>

text \<open>
  The values that flow through \<^verbatim>\<open>server.js\<close>: what \<^verbatim>\<open>bodyParser.json()\<close> produces, what
  the handlers store in \<^verbatim>\<open>products\<close> and what they pass to \<^verbatim>\<open>res.json\<close>. An object is its
  list of own properties in insertion order (JavaScript enumerates integer-like keys first;
  no handler reads the order). A number carries its exact value; \<open>JNaN\<close> is the one
  non-finite number the program can produce (from \<^verbatim>\<open>parseInt\<close>). Strings are lists of
  8-bit characters.
\<close>

datatype jsval =
    JUndefined
  | JNull
  | JBool bool
  | JNum rat
  | JNaN
  | JStr string
  | JArr "jsval list"
  | JObj "(string \<times> jsval) list"

type_synonym obj = "(string \<times> jsval) list"

text \<open>\<^verbatim>\<open>o.k\<close> on an object without that own property is \<^verbatim>\<open>undefined\<close>.\<close>

definition get_prop :: "obj \<Rightarrow> string \<Rightarrow> jsval" where
  "get_prop ob k = (case map_of ob k of None \<Rightarrow> JUndefined | Some v \<Rightarrow> v)"

text \<open>\<^verbatim>\<open>!v\<close> is true exactly for the falsy values.\<close>

fun truthy :: "jsval \<Rightarrow> bool" where
  "truthy JUndefined = False"
| "truthy JNull = False"
| "truthy (JBool b) = b"
| "truthy (JNum n) = (n \<noteq> 0)"
| "truthy JNaN = False"
| "truthy (JStr s) = (s \<noteq> [])"
| "truthy (JArr xs) = True"
| "truthy (JObj ps) = True"

text \<open>
  \<^verbatim>\<open>a === b\<close>. Primitives compare by value and \<^verbatim>\<open>NaN\<close> equals nothing. Arrays and objects
  compare by identity; wherever the program uses \<^verbatim>\<open>===\<close> one operand is a request string,
  so an array or object operand is never the same reference as the other one.
\<close>

fun strict_eq :: "jsval \<Rightarrow> jsval \<Rightarrow> bool" where
  "strict_eq JUndefined JUndefined = True"
| "strict_eq JNull JNull = True"
| "strict_eq (JBool a) (JBool b) = (a = b)"
| "strict_eq (JNum a) (JNum b) = (a = b)"
| "strict_eq (JStr a) (JStr b) = (a = b)"
| "strict_eq _ _ = False"

fun is_number :: "jsval \<Rightarrow> bool" where
  "is_number (JNum n) = True"
| "is_number JNaN = True"
| "is_number _ = False"

fun is_boolean :: "jsval \<Rightarrow> bool" where
  "is_boolean (JBool b) = True"
| "is_boolean _ = False"

text \<open>
  The object spread \<^verbatim>\<open>{ ...a, ...b }\<close>: the properties of \<open>a\<close>, then each property of \<open>b\<close>
  in turn, overwriting in place a key that is already there and appending a new one.
\<close>

definition spread :: "obj \<Rightarrow> obj \<Rightarrow> obj" where
  "spread a b = fold (\<lambda>(k, v). AList.update k v) b a"

subsection \<open>Strings\<close>

definition toLowerChar :: "char \<Rightarrow> char" where
  "toLowerChar c =
     (let n = (of_char c :: nat) in if 65 \<le> n \<and> n \<le> 90 then char_of (n + 32) else c)"

text \<open>\<^verbatim>\<open>s.toLowerCase()\<close>, on the ASCII letters.\<close>

definition toLowerCase :: "string \<Rightarrow> string" where
  "toLowerCase s = map toLowerChar s"

fun starts_with :: "string \<Rightarrow> string \<Rightarrow> bool" where
  "starts_with s [] = True"
| "starts_with [] (c # cs) = False"
| "starts_with (d # ds) (c # cs) = (d = c \<and> starts_with ds cs)"

text \<open>\<^verbatim>\<open>s.includes(t)\<close>: \<open>t\<close> occurs in \<open>s\<close> as a contiguous substring.\<close>

fun includes_str :: "string \<Rightarrow> string \<Rightarrow> bool" where
  "includes_str [] t = (t = [])"
| "includes_str (c # cs) t = (starts_with (c # cs) t \<or> includes_str cs t)"

subsection \<open>parseInt\<close>

definition is_space :: "char \<Rightarrow> bool" where
  "is_space c = ((of_char c :: nat) \<in> {9, 10, 11, 12, 13, 32})"

text \<open>The value of a character as a digit in the given radix (10 or 16), if it is one.\<close>

definition digit_of :: "nat \<Rightarrow> char \<Rightarrow> nat option" where
  "digit_of radix c =
     (let n = (of_char c :: nat);
          d = (if 48 \<le> n \<and> n \<le> 57 then Some (n - 48)
               else if 97 \<le> n \<and> n \<le> 102 then Some (n - 87)
               else if 65 \<le> n \<and> n \<le> 70 then Some (n - 55)
               else None)
      in case d of None \<Rightarrow> None | Some v \<Rightarrow> if v < radix then Some v else None)"

fun digits_value :: "nat \<Rightarrow> nat \<Rightarrow> string \<Rightarrow> nat" where
  "digits_value radix acc [] = acc"
| "digits_value radix acc (c # cs) =
     (case digit_of radix c of
        None \<Rightarrow> acc
      | Some d \<Rightarrow> digits_value radix (acc * radix + d) cs)"

text \<open>
  \<^verbatim>\<open>parseInt(s)\<close> with no radix argument: leading white space is skipped, then an optional
  sign, then an optional \<^verbatim>\<open>0x\<close> (which selects radix 16), then the longest run of digits;
  with no digit the result is \<^verbatim>\<open>NaN\<close>, here \<open>None\<close>. The result is exact; JavaScript rounds
  it to a double above \<open>2 ^ 53\<close>.
\<close>

definition parseInt :: "string \<Rightarrow> int option" where
  "parseInt s =
     (let t = dropWhile is_space s;
          neg = (t \<noteq> [] \<and> hd t = CHR ''-'');
          u = (if t \<noteq> [] \<and> (hd t = CHR ''-'' \<or> hd t = CHR ''+'') then tl t else t);
          hex = (starts_with u ''0x'' \<or> starts_with u ''0X'');
          radix = (if hex then 16 else 10);
          v = (if hex then drop 2 u else u)
      in case v of
           [] \<Rightarrow> None
         | c # cs \<Rightarrow>
             (case digit_of radix c of
                None \<Rightarrow> None
              | Some d \<Rightarrow>
                  Some ((if neg then - 1 else 1) * int (digits_value radix 0 (c # cs)))))"

text \<open>
  \<^verbatim>\<open>xs.slice(start, end)\<close> on integer arguments: a negative index counts from the end, and
  both are clamped to the array.
\<close>

definition slice :: "'a list \<Rightarrow> int \<Rightarrow> int \<Rightarrow> 'a list" where
  "slice xs start stop =
     (let len = int (length xs);
          k = (if start < 0 then max (len + start) 0 else min start len);
          final = (if stop < 0 then max (len + stop) 0 else min stop len)
      in take (nat (final - k)) (drop (nat k) xs))"

subsection \<open>Property keys\<close>

fun decimal :: "nat \<Rightarrow> string" where
  "decimal n =
     (if n < 10 then [char_of (48 + n)] else decimal (n div 10) @ [char_of (48 + n mod 10)])"

text \<open>
  \<^verbatim>\<open>String(n)\<close> for a number: the decimal digits of an integer below \<open>10 ^ 21\<close>. The
  rendering of every other number is the shortest decimal that reads back as the same
  double; it is left unspecified here, and nothing below depends on it.
\<close>

definition number_toString :: "rat \<Rightarrow> string" where
  "number_toString r =
     (if r = of_int \<lfloor>r\<rfloor> \<and> \<bar>r\<bar> < 10 ^ 21
      then (if r < 0 then ''-'' else []) @ decimal (nat \<bar>\<lfloor>r\<rfloor>\<bar>)
      else undefined)"

fun join_comma :: "string list \<Rightarrow> string" where
  "join_comma [] = []"
| "join_comma [s] = s"
| "join_comma (s # t # ss) = s @ '','' @ join_comma (t # ss)"

text \<open>
  \<^verbatim>\<open>String(v)\<close>, which is also the key under which \<^verbatim>\<open>ob[v]\<close> reads and writes. An array
  joins its elements with commas, writing nothing for \<^verbatim>\<open>null\<close> and \<^verbatim>\<open>undefined\<close>.
\<close>

fun toString :: "jsval \<Rightarrow> string" where
  "toString JUndefined = ''undefined''"
| "toString JNull = ''null''"
| "toString (JBool b) = (if b then ''true'' else ''false'')"
| "toString (JNum r) = number_toString r"
| "toString JNaN = ''NaN''"
| "toString (JStr s) = s"
| "toString (JArr xs) =
     join_comma (map (\<lambda>v. if v = JUndefined \<or> v = JNull then [] else toString v) xs)"
| "toString (JObj ps) = ''[object Object]''"

section \<open>Requests, responses and the program state\<close>

text \<open>
  The methods the program registers routes for, and \<open>PATCH\<close> for a method it has no route
  for. \<^verbatim>\<open>HEAD\<close> and \<^verbatim>\<open>OPTIONS\<close>, which Express answers in a way of its own, are left out.
\<close>

datatype http_method = GET | POST | PUT | DELETE | PATCH

text \<open>
  A request as the handlers see it, after \<^verbatim>\<open>bodyParser.json()\<close> has run: \<open>path\<close> is the
  URL path split at the slashes (\<^verbatim>\<open>/api/products/3\<close> is \<open>[''api'', ''products'', ''3'']\<close>,
  \<^verbatim>\<open>/\<close> is \<open>[]\<close>, a trailing slash leaves an empty last segment; percent-encoding is not
  modelled), \<open>query\<close> holds each parameter once
  with a string value, \<open>headers\<close> holds the header names in lower case as Node gives them,
  \<open>body\<close> is the parsed JSON object (\<^verbatim>\<open>{}\<close> when the request has none; an array body behaves
  as the object of its indices), \<open>params\<close> is filled by the router. Two values come from
  the environment while the request is handled: \<open>uuid\<close> is what \<^verbatim>\<open>uuidv4()\<close> returns, \<open>now\<close> is
  \<^verbatim>\<open>new Date().toISOString()\<close>.
\<close>

record request =
  req_method :: http_method
  path :: "string list"
  originalUrl :: string
  query :: "(string \<times> string) list"
  headers :: "(string \<times> string) list"
  body :: obj
  params :: "(string \<times> string) list"
  uuid :: string
  now :: string

text \<open>
  What a response carries: the value given to \<^verbatim>\<open>res.json\<close> (before it is serialised, so a
  property may still be \<^verbatim>\<open>undefined\<close> and a number \<^verbatim>\<open>NaN\<close>), the string given to \<^verbatim>\<open>res.send\<close>,
  nothing, or the page Express writes itself when no handler answers.
\<close>

datatype content =
    Json jsval
  | Text string
  | Empty
  | DefaultPage

record response =
  status :: nat
  content :: content

text \<open>The module-level \<^verbatim>\<open>products\<close> array, and the lines written by \<^verbatim>\<open>console.log\<close>.\<close>

record state =
  products :: "obj list"
  console :: "string list"

datatype js_error =
    NotFoundError string
  | ValidationError string
  | TypeError string

text \<open>
  What a middleware or handler does with a request: send a response, call \<^verbatim>\<open>next()\<close>, or
  throw.
\<close>

datatype outcome = Send response | Next | Throw js_error

type_synonym handler = "request \<Rightarrow> state \<Rightarrow> outcome \<times> state"

definition param :: "request \<Rightarrow> string \<Rightarrow> jsval" where
  "param req k = (case map_of (params req) k of None \<Rightarrow> JUndefined | Some v \<Rightarrow> JStr v)"

definition query_param :: "request \<Rightarrow> string \<Rightarrow> string option" where
  "query_param req k = map_of (query req) k"

definition header :: "request \<Rightarrow> string \<Rightarrow> string option" where
  "header req k = map_of (headers req) k"

definition method_name :: "http_method \<Rightarrow> string" where
  "method_name m =
     (case m of GET \<Rightarrow> ''GET'' | POST \<Rightarrow> ''POST'' | PUT \<Rightarrow> ''PUT'' | DELETE \<Rightarrow> ''DELETE''
      | PATCH \<Rightarrow> ''PATCH'')"

text \<open>\<^verbatim>\<open>xs.findIndex(P)\<close>, with \<open>None\<close> for \<^verbatim>\<open>-1\<close>.\<close>

fun findIndex :: "('a \<Rightarrow> bool) \<Rightarrow> 'a list \<Rightarrow> nat option" where
  "findIndex P [] = None"
| "findIndex P (x # xs) = (if P x then Some 0 else map_option Suc (findIndex P xs))"

definition json_error :: "nat \<Rightarrow> string \<Rightarrow> response" where
  "json_error code msg = \<lparr>status = code, content = Json (JObj [(''error'', JStr msg)])\<rparr>"

section \<open>The handlers of server.js\<close>

text \<open>Lines 16 to 41: the seeded collection.\<close>

definition seed_products :: "obj list" where
  "seed_products =
     [[(''id'', JStr ''1''), (''name'', JStr ''Laptop''),
       (''description'', JStr ''High-performance laptop with 16GB RAM''),
       (''price'', JNum 1200), (''category'', JStr ''electronics''), (''inStock'', JBool True)],
      [(''id'', JStr ''2''), (''name'', JStr ''Smartphone''),
       (''description'', JStr ''Latest model with 128GB storage''),
       (''price'', JNum 800), (''category'', JStr ''electronics''), (''inStock'', JBool True)],
      [(''id'', JStr ''3''), (''name'', JStr ''Coffee Maker''),
       (''description'', JStr ''Programmable coffee maker with timer''),
       (''price'', JNum 50), (''category'', JStr ''kitchen''), (''inStock'', JBool False)]]"

definition seed :: state where
  "seed = \<lparr>products = seed_products, console = []\<rparr>"

text \<open>Line 44: \<^verbatim>\<open>GET /\<close>.\<close>

definition rootHandler :: handler where
  "rootHandler req s =
     (Send \<lparr>status = 200,
            content = Text ''Welcome to the Product API! Go to /api/products to see all products.''\<rparr>,
      s)"

text \<open>Line 50: the first \<^verbatim>\<open>GET /api/products\<close>, \<^verbatim>\<open>res.json(products)\<close>.\<close>

definition listProducts :: handler where
  "listProducts req s =
     (Send \<lparr>status = 200, content = Json (JArr (map JObj (products s)))\<rparr>, s)"

text \<open>Line 55: \<^verbatim>\<open>GET /api/products/:id\<close>.\<close>

definition getProduct :: handler where
  "getProduct req s =
     (case find (\<lambda>p. strict_eq (get_prop p ''id'') (param req ''id'')) (products s) of
        None \<Rightarrow> (Send (json_error 404 ''Product not found''), s)
      | Some product \<Rightarrow> (Send \<lparr>status = 200, content = Json (JObj product)\<rparr>, s))"

text \<open>
  Lines 62 and 153: the handler of \<^verbatim>\<open>POST /api/products\<close>. The two registrations have the
  same body, character for character. \<open>new_product\<close> is the object literal of lines 64 and
  155, built from the destructured body.
\<close>

definition new_product :: "request \<Rightarrow> obj" where
  "new_product req =
     [(''id'', JStr (uuid req)),
      (''name'', get_prop (body req) ''name''),
      (''description'', get_prop (body req) ''description''),
      (''price'', get_prop (body req) ''price''),
      (''category'', get_prop (body req) ''category''),
      (''inStock'', get_prop (body req) ''inStock'')]"

definition createProduct :: handler where
  "createProduct req s =
     (let product = new_product req
      in (Send \<lparr>status = 201, content = Json (JObj product)\<rparr>,
          s\<lparr>products := products s @ [product]\<rparr>))"

text \<open>
  Lines 70 and 160: the handler of \<^verbatim>\<open>PUT /api/products/:id\<close>, again the same body in both
  registrations.
\<close>

definition updateProduct :: handler where
  "updateProduct req s =
     (case findIndex (\<lambda>p. strict_eq (get_prop p ''id'') (param req ''id'')) (products s) of
        None \<Rightarrow> (Send (json_error 404 ''Product not found''), s)
      | Some index \<Rightarrow>
          (let merged = spread (products s ! index) (body req)
           in (Send \<lparr>status = 200, content = Json (JObj merged)\<rparr>,
               s\<lparr>products := (products s)[index := merged]\<rparr>)))"

text \<open>Line 78: \<^verbatim>\<open>DELETE /api/products/:id\<close>; \<^verbatim>\<open>splice(index, 1)\<close> drops one element.\<close>

definition deleteProduct :: handler where
  "deleteProduct req s =
     (case findIndex (\<lambda>p. strict_eq (get_prop p ''id'') (param req ''id'')) (products s) of
        None \<Rightarrow> (Send (json_error 404 ''Product not found''), s)
      | Some index \<Rightarrow>
          (Send \<lparr>status = 204, content = Empty\<rparr>,
           s\<lparr>products := take index (products s) @ drop (Suc index) (products s)\<rparr>))"

text \<open>Line 86: the logger.\<close>

definition logger :: handler where
  "logger req s =
     (Next,
      s\<lparr>console := console s @
           [''['' @ now req @ ''] '' @ method_name (req_method req) @ '' '' @ originalUrl req]\<rparr>)"

text \<open>Line 92.\<close>

definition authenticate :: handler where
  "authenticate req s =
     (if header req ''x-api-key'' \<noteq> Some ''my-secret-key''
      then (Send (json_error 401 ''Unauthorized: Invalid API key''), s)
      else (Next, s))"

text \<open>Line 101.\<close>

definition validateProduct :: handler where
  "validateProduct req s =
     (if \<not> truthy (get_prop (body req) ''name'')
         \<or> \<not> truthy (get_prop (body req) ''description'')
         \<or> \<not> is_number (get_prop (body req) ''price'')
         \<or> \<not> truthy (get_prop (body req) ''category'')
         \<or> \<not> is_boolean (get_prop (body req) ''inStock'')
      then (Send (json_error 400 ''ValidationError: Invalid product data''), s)
      else (Next, s))"

text \<open>
  Line 127: the second \<^verbatim>\<open>GET /api/products\<close>. \<^verbatim>\<open>p.name.toLowerCase()\<close> throws a TypeError
  when \<^verbatim>\<open>p.name\<close> is not a string (the messages are V8's); the filter stops at the first
  product where it does.
\<close>

definition name_toLowerCase :: "obj \<Rightarrow> js_error + string" where
  "name_toLowerCase p =
     (case get_prop p ''name'' of
        JStr s \<Rightarrow> Inr (toLowerCase s)
      | JUndefined \<Rightarrow>
          Inl (TypeError ''Cannot read properties of undefined (reading 'toLowerCase')'')
      | JNull \<Rightarrow> Inl (TypeError ''Cannot read properties of null (reading 'toLowerCase')'')
      | _ \<Rightarrow> Inl (TypeError ''p.name.toLowerCase is not a function''))"

fun filter_search :: "string \<Rightarrow> obj list \<Rightarrow> js_error + obj list" where
  "filter_search search [] = Inr []"
| "filter_search search (p # ps) =
     (case name_toLowerCase p of
        Inl e \<Rightarrow> Inl e
      | Inr n \<Rightarrow>
          (case filter_search search ps of
             Inl e \<Rightarrow> Inl e
           | Inr r \<Rightarrow> Inr (if includes_str n (toLowerCase search) then p # r else r)))"

text \<open>\<^verbatim>\<open>parseInt(page)\<close> where \<^verbatim>\<open>page\<close> is the query parameter or, when that is absent, a default.\<close>

definition parse_or :: "int \<Rightarrow> string option \<Rightarrow> int option" where
  "parse_or d q = (case q of None \<Rightarrow> Some d | Some s \<Rightarrow> parseInt s)"

definition number :: "int option \<Rightarrow> jsval" where
  "number n = (case n of None \<Rightarrow> JNaN | Some i \<Rightarrow> JNum (of_int i))"

text \<open>An index that is \<^verbatim>\<open>NaN\<close> counts as 0 in \<^verbatim>\<open>slice\<close>.\<close>

definition to_index :: "int option \<Rightarrow> int" where
  "to_index n = (case n of None \<Rightarrow> 0 | Some i \<Rightarrow> i)"

definition paginate :: "request \<Rightarrow> obj list \<Rightarrow> response" where
  "paginate req result =
     (let page = parse_or 1 (query_param req ''page'');
          limit = parse_or 10 (query_param req ''limit'');
          start = (case (page, limit) of (Some p, Some l) \<Rightarrow> Some ((p - 1) * l) | _ \<Rightarrow> None);
          stop = (case (start, limit) of (Some b, Some l) \<Rightarrow> Some (b + l) | _ \<Rightarrow> None);
          paginated = slice result (to_index start) (to_index stop)
      in \<lparr>status = 200,
          content = Json (JObj [(''total'', JNum (of_nat (length result))),
                                (''page'', number page),
                                (''limit'', number limit),
                                (''products'', JArr (map JObj paginated))])\<rparr>)"

definition listFiltered :: handler where
  "listFiltered req s =
     (let result = products s;
          result = (case query_param req ''category'' of
                      None \<Rightarrow> result
                    | Some category \<Rightarrow>
                        if category = [] then result
                        else filter (\<lambda>p. strict_eq (get_prop p ''category'') (JStr category)) result);
          searched = (case query_param req ''search'' of
                        None \<Rightarrow> Inr result
                      | Some search \<Rightarrow>
                          if search = [] then Inr result else filter_search search result)
      in case searched of
           Inl e \<Rightarrow> (Throw e, s)
         | Inr result \<Rightarrow> (Send (paginate req result), s))"

text \<open>
  Line 144: the statistics. \<^verbatim>\<open>stats[p.category]\<close> converts the category to a property key.
  A key that \<^verbatim>\<open>stats\<close> does not own yet is looked up in \<^verbatim>\<open>Object.prototype\<close>: for the names
  below the value read is a built-in function, so that \<^verbatim>\<open>(f || 0) + 1\<close> is the function's
  source text followed by \<^verbatim>\<open>1\<close>; the key \<^verbatim>\<open>__proto__\<close> reads the prototype object and
  ignores the assignment of a string.
\<close>

definition inherited_names :: "string list" where
  "inherited_names =
     [''constructor'', ''hasOwnProperty'', ''isPrototypeOf'', ''propertyIsEnumerable'',
      ''toLocaleString'', ''toString'', ''valueOf'', ''__defineGetter__'', ''__defineSetter__'',
      ''__lookupGetter__'', ''__lookupSetter__'']"

definition native_source :: "string \<Rightarrow> string" where
  "native_source k =
     ''function '' @ (if k = ''constructor'' then ''Object'' else k) @ ''() { [native code] }''"

text \<open>\<^verbatim>\<open>(v || 0) + 1\<close> for an own property \<open>v\<close>.\<close>

definition or_zero_plus_one :: "jsval \<Rightarrow> jsval" where
  "or_zero_plus_one v =
     (if \<not> truthy v then JNum 1
      else case v of
             JNum n \<Rightarrow> JNum (n + 1)
           | JBool b \<Rightarrow> JNum 2
           | _ \<Rightarrow> JStr (toString v @ ''1''))"

definition count_category :: "obj \<Rightarrow> obj \<Rightarrow> obj" where
  "count_category stats p =
     (let k = toString (get_prop p ''category'')
      in case map_of stats k of
           Some v \<Rightarrow> AList.update k (or_zero_plus_one v) stats
         | None \<Rightarrow>
             if k = ''__proto__'' then stats
             else if k \<in> set inherited_names
               then AList.update k (JStr (native_source k @ ''1'')) stats
             else AList.update k (JNum 1) stats)"

definition productStats :: handler where
  "productStats req s =
     (Send \<lparr>status = 200, content = Json (JObj (foldl count_category [] (products s)))\<rparr>, s)"

text \<open>Line 168: the error-handling middleware.\<close>

definition errorHandler :: "js_error \<Rightarrow> response" where
  "errorHandler err =
     (case err of
        NotFoundError m \<Rightarrow>
          \<lparr>status = 404,
           content = Json (JObj [(''error'', JStr ''NotFoundError''), (''message'', JStr m)])\<rparr>
      | ValidationError m \<Rightarrow>
          \<lparr>status = 400,
           content = Json (JObj [(''error'', JStr ''ValidationError''), (''message'', JStr m)])\<rparr>
      | TypeError m \<Rightarrow>
          \<lparr>status = 500,
           content = Json (JObj [(''error'', JStr ''InternalServerError''), (''message'', JStr m)])\<rparr>)"

section \<open>The router\<close>

text \<open>
  A route path is a list of segments, literal or \<^verbatim>\<open>:name\<close>. Express compares literal
  segments without regard to case, binds a parameter to a whole segment that is not
  empty, and accepts one trailing slash (the empty segment it leaves at the end of the
  path).
\<close>

datatype segment = Lit string | Param string

fun match_path :: "segment list \<Rightarrow> string list \<Rightarrow> (string \<times> string) list option" where
  "match_path [] [] = Some []"
| "match_path [] [x] = (if x = [] then Some [] else None)"
| "match_path (Lit l # ps) (x # xs) =
     (if toLowerCase x = l then match_path ps xs else None)"
| "match_path (Param n # ps) (x # xs) =
     (if x = [] then None else map_option ((#) (n, x)) (match_path ps xs))"
| "match_path _ _ = None"

text \<open>
  The entries of the application's stack, in the order of registration: \<^verbatim>\<open>app.use(f)\<close>,
  \<^verbatim>\<open>app.get/post/put/delete(path, f, ...)\<close>, and \<^verbatim>\<open>app.use\<close> of a four-argument error handler.
\<close>

datatype layer =
    Use handler
  | Route http_method "segment list" "handler list"
  | UseError "js_error \<Rightarrow> response"

text \<open>The handlers of one route run in order until one of them does not call \<^verbatim>\<open>next()\<close>.\<close>

fun run_chain :: "handler list \<Rightarrow> handler" where
  "run_chain [] req s = (Next, s)"
| "run_chain (h # hs) req s =
     (case h req s of
        (Next, s') \<Rightarrow> run_chain hs req s'
      | (Send r, s') \<Rightarrow> (Send r, s')
      | (Throw e, s') \<Rightarrow> (Throw e, s'))"

text \<open>
  A thrown error goes to the first error handler further down the stack; Express answers
  500 itself when there is none.
\<close>

fun on_error :: "layer list \<Rightarrow> js_error \<Rightarrow> response" where
  "on_error [] e = \<lparr>status = 500, content = DefaultPage\<rparr>"
| "on_error (UseError h # ls) e = h e"
| "on_error (l # ls) e = on_error ls e"

text \<open>
  A request walks down the stack. A layer that matches runs; if it sends a response the
  walk ends there, if it calls \<^verbatim>\<open>next()\<close> the walk goes on below it. At the bottom Express
  answers 404 with its own page.
\<close>

fun dispatch :: "layer list \<Rightarrow> request \<Rightarrow> state \<Rightarrow> response \<times> state" where
  "dispatch [] req s = (\<lparr>status = 404, content = DefaultPage\<rparr>, s)"
| "dispatch (Use h # ls) req s =
     (case h req s of
        (Send r, s') \<Rightarrow> (r, s')
      | (Next, s') \<Rightarrow> dispatch ls req s'
      | (Throw e, s') \<Rightarrow> (on_error ls e, s'))"
| "dispatch (Route m pat hs # ls) req s =
     (if req_method req \<noteq> m then dispatch ls req s
      else case match_path pat (path req) of
             None \<Rightarrow> dispatch ls req s
           | Some ps \<Rightarrow>
               (case run_chain hs (req\<lparr>params := ps\<rparr>) s of
                  (Send r, s') \<Rightarrow> (r, s')
                | (Next, s') \<Rightarrow> dispatch ls req s'
                | (Throw e, s') \<Rightarrow> (on_error ls e, s')))"
| "dispatch (UseError h # ls) req s = dispatch ls req s"

text \<open>The stack of server.js, one entry per \<^verbatim>\<open>app.\<close> call from line 44 to line 168.\<close>

definition app_stack :: "layer list" where
  "app_stack =
     [Route GET [] [rootHandler],
      Route GET [Lit ''api'', Lit ''products''] [listProducts],
      Route GET [Lit ''api'', Lit ''products'', Param ''id''] [getProduct],
      Route POST [Lit ''api'', Lit ''products''] [createProduct],
      Route PUT [Lit ''api'', Lit ''products'', Param ''id''] [updateProduct],
      Route DELETE [Lit ''api'', Lit ''products'', Param ''id''] [deleteProduct],
      Use logger,
      Route GET [Lit ''api'', Lit ''products''] [listFiltered],
      Route GET [Lit ''api'', Lit ''products'', Lit ''stats''] [productStats],
      Route POST [Lit ''api'', Lit ''products''] [authenticate, validateProduct, createProduct],
      Route PUT [Lit ''api'', Lit ''products'', Param ''id'']
        [authenticate, validateProduct, updateProduct],
      UseError errorHandler]"

definition app :: "request \<Rightarrow> state \<Rightarrow> response \<times> state" where
  "app req s = dispatch app_stack req s"


section \<open>Sequences of requests and the identifiers in the collection\<close>

text \<open>The server handles one request after the other, each on the state the last one left.\<close>

fun run :: "request list \<Rightarrow> state \<Rightarrow> state" where
  "run [] s = s"
| "run (req # reqs) s = run reqs (snd (app req s))"

definition product_ids :: "state \<Rightarrow> jsval list" where
  "product_ids s = map (\<lambda>p. get_prop p ''id'') (products s)"

definition unique_ids :: "state \<Rightarrow> bool" where
  "unique_ids s = distinct (product_ids s)"

text \<open>
  The position of the record that an update replaces: the first record whose identifier
  is the \<^verbatim>\<open>:id\<close> of the path, when the request is a \<^verbatim>\<open>PUT\<close> on \<^verbatim>\<open>/api/products/:id\<close> and
  there is such a record.
\<close>

definition update_target :: "request \<Rightarrow> state \<Rightarrow> nat option" where
  "update_target req s =
     (if req_method req \<noteq> PUT then None
      else case match_path [Lit ''api'', Lit ''products'', Param ''id''] (path req) of
             None \<Rightarrow> None
           | Some ps \<Rightarrow>
               findIndex (\<lambda>p. strict_eq (get_prop p ''id'') (param (req\<lparr>params := ps\<rparr>) ''id''))
                 (products s))"

text \<open>
  The two conditions under which a request cannot introduce a second product with the same
  identifier: the value \<^verbatim>\<open>uuidv4()\<close> returns for a create is not in the collection yet, and
  the identifier that an update leaves in its record (the one in the body, or the old one
  when the body has none) is not the identifier of another record.
\<close>

definition admissible :: "request \<Rightarrow> state \<Rightarrow> bool" where
  "admissible req s =
     (case req_method req of
        POST \<Rightarrow>
          (if match_path [Lit ''api'', Lit ''products''] (path req) = None then True
           else JStr (uuid req) \<notin> set (product_ids s))
      | PUT \<Rightarrow>
          (case update_target req s of
             None \<Rightarrow> True
           | Some n \<Rightarrow>
               get_prop (spread (products s ! n) (body req)) ''id''
                 \<notin> set (map (\<lambda>p. get_prop p ''id'')
                          (take n (products s) @ drop (Suc n) (products s))))
      | _ \<Rightarrow> True)"

fun admissible_run :: "request list \<Rightarrow> state \<Rightarrow> bool" where
  "admissible_run [] s = True"
| "admissible_run (req # reqs) s = (admissible req s \<and> admissible_run reqs (snd (app req s)))"

section \<open>Sample requests\<close>

definition blank :: request where
  "blank =
     \<lparr>req_method = GET, path = [], originalUrl = ''/'', query = [], headers = [], body = [],
      params = [], uuid = ''9b1deb4d-3b7d-4bad-9bdd-2b0d7b3dcb6d'',
      now = ''2024-01-01T00:00:00.000Z''\<rparr>"

definition kettle :: obj where
  "kettle =
     [(''name'', JStr ''Kettle''), (''description'', JStr ''Electric kettle''),
      (''price'', JNum 30), (''category'', JStr ''kitchen''), (''inStock'', JBool True)]"

definition with_key :: "(string \<times> string) list" where
  "with_key = [(''x-api-key'', ''my-secret-key'')]"

text \<open>\<^verbatim>\<open>POST /api/products\<close> with a complete body and no \<^verbatim>\<open>x-api-key\<close> header.\<close>

definition post_without_key :: request where
  "post_without_key =
     blank\<lparr>req_method := POST, path := [''api'', ''products''], originalUrl := ''/api/products'',
            body := kettle\<rparr>"

text \<open>\<^verbatim>\<open>POST /api/products\<close> with the right key and a body that has no \<^verbatim>\<open>description\<close>.\<close>

definition post_without_description :: request where
  "post_without_description =
     blank\<lparr>req_method := POST, path := [''api'', ''products''], originalUrl := ''/api/products'',
            headers := with_key,
            body := [(''name'', JStr ''Kettle''), (''price'', JNum 30),
                     (''category'', JStr ''kitchen''), (''inStock'', JBool True)]\<rparr>"

text \<open>\<^verbatim>\<open>POST /api/products\<close> with the right key and a complete body.\<close>

definition post_kettle :: request where
  "post_kettle =
     blank\<lparr>req_method := POST, path := [''api'', ''products''], originalUrl := ''/api/products'',
            headers := with_key, body := kettle\<rparr>"

text \<open>\<^verbatim>\<open>GET /api/products?page=1&limit=2\<close>.\<close>

definition get_first_page :: request where
  "get_first_page =
     blank\<lparr>path := [''api'', ''products''], originalUrl := ''/api/products?page=1&limit=2'',
            query := [(''page'', ''1''), (''limit'', ''2'')]\<rparr>"

text \<open>\<^verbatim>\<open>GET /api/products/stats\<close>.\<close>

definition get_stats :: request where
  "get_stats =
     blank\<lparr>path := [''api'', ''products'', ''stats''], originalUrl := ''/api/products/stats''\<rparr>"

text \<open>
  \<^verbatim>\<open>PUT /api/products/1\<close> with the right key and a complete body that also carries
  \<^verbatim>\<open>"id": "2"\<close>.
\<close>

definition put_with_id :: request where
  "put_with_id =
     blank\<lparr>req_method := PUT, path := [''api'', ''products'', ''1''],
            originalUrl := ''/api/products/1'', headers := with_key,
            body := (''id'', JStr ''2'') # kettle\<rparr>"

text \<open>\<^verbatim>\<open>PUT /api/products/1\<close> with the right key and the body \<^verbatim>\<open>{"price": 999}\<close>.\<close>

definition put_price :: request where
  "put_price =
     blank\<lparr>req_method := PUT, path := [''api'', ''products'', ''1''],
            originalUrl := ''/api/products/1'', headers := with_key,
            body := [(''price'', JNum 999)]\<rparr>"

text \<open>
  \<^verbatim>\<open>PUT /api/products/1\<close> with the right key and a complete body that carries the record's
  own \<^verbatim>\<open>"id": "1"\<close>, and the same with \<^verbatim>\<open>"id": "99"\<close>, which no record has.
\<close>

definition put_own_id :: request where
  "put_own_id =
     blank\<lparr>req_method := PUT, path := [''api'', ''products'', ''1''],
            originalUrl := ''/api/products/1'', headers := with_key,
            body := (''id'', JStr ''1'') # kettle\<rparr>"

definition put_new_id :: request where
  "put_new_id =
     blank\<lparr>req_method := PUT, path := [''api'', ''products'', ''1''],
            originalUrl := ''/api/products/1'', headers := with_key,
            body := (''id'', JStr ''99'') # kettle\<rparr>"

text \<open>\<^verbatim>\<open>PUT /api/products/1\<close> with a complete body and no \<^verbatim>\<open>x-api-key\<close> header.\<close>

definition put_without_key :: request where
  "put_without_key =
     blank\<lparr>req_method := PUT, path := [''api'', ''products'', ''1''],
            originalUrl := ''/api/products/1'', body := kettle\<rparr>"

text \<open>\<^verbatim>\<open>DELETE /api/products/2\<close>, \<^verbatim>\<open>GET /api/products/2\<close> and \<^verbatim>\<open>DELETE /api/products/7\<close>.\<close>

definition delete_2 :: request where
  "delete_2 =
     blank\<lparr>req_method := DELETE, path := [''api'', ''products'', ''2''],
            originalUrl := ''/api/products/2''\<rparr>"

definition get_2 :: request where
  "get_2 = blank\<lparr>path := [''api'', ''products'', ''2''], originalUrl := ''/api/products/2''\<rparr>"

definition delete_7 :: request where
  "delete_7 =
     blank\<lparr>req_method := DELETE, path := [''api'', ''products'', ''7''],
            originalUrl := ''/api/products/7''\<rparr>"

section \<open>Properties\<close>

subsection \<open>Values, lists and objects\<close>

lemma strict_eq_JStr [simp]: "strict_eq v (JStr i) = (v = JStr i)"
  by (cases v) auto

lemma toLowerCase_api [simp]: "toLowerCase ''api'' = ''api''"
  by (simp add: toLowerCase_def toLowerChar_def)

lemma toLowerCase_products [simp]: "toLowerCase ''products'' = ''products''"
  by (simp add: toLowerCase_def toLowerChar_def)

lemma param_routed [simp]: "param (req\<lparr>params := [(k, i)]\<rparr>) k = JStr i"
  by (simp add: param_def)

lemma new_product_params [simp]: "new_product (req\<lparr>params := ps\<rparr>) = new_product req"
  by (simp add: new_product_def)

text \<open>
  \<^verbatim>\<open>findIndex\<close> returns the first position where the predicate holds, and \<^verbatim>\<open>find\<close> the
  element there.
\<close>

lemma findIndex_Some:
  "findIndex P xs = Some n \<Longrightarrow> n < length xs \<and> P (xs ! n) \<and> (\<forall>m<n. \<not> P (xs ! m))"
proof (induction xs arbitrary: n)
  case Nil
  then show ?case by simp
next
  case (Cons x xs)
  show ?case
  proof (cases "P x")
    case True
    with Cons.prems show ?thesis by simp
  next
    case False
    with Cons.prems obtain k where k: "findIndex P xs = Some k" "n = Suc k"
      by auto
    from Cons.IH [OF k(1)] False k(2) show ?thesis
      by (auto simp: less_Suc_eq_0_disj)
  qed
qed

lemma findIndex_before:
  "findIndex P xs = Some n \<Longrightarrow> \<forall>x\<in>set (take n xs). \<not> P x"
proof (induction xs arbitrary: n)
  case Nil
  then show ?case by simp
next
  case (Cons x xs)
  then show ?case
    by (cases "P x") auto
qed

lemma findIndex_None: "findIndex P xs = None \<longleftrightarrow> (\<forall>x\<in>set xs. \<not> P x)"
  by (induction xs) auto

lemma find_None_iff_findIndex: "find P xs = None \<longleftrightarrow> findIndex P xs = None"
  by (induction xs) auto

lemma find_append_None: "find P xs = None \<Longrightarrow> find P (xs @ ys) = find P ys"
  by (induction xs) (auto split: if_splits)

lemma distinct_remove_nth: "distinct xs \<Longrightarrow> distinct (take n xs @ drop (Suc n) xs)"
  by (simp add: set_take_disj_set_drop_if_distinct)



lemma map_of_spread_absent:
  "k \<notin> fst ` set b \<Longrightarrow> map_of (spread a b) k = map_of a k"
  unfolding spread_def
  by (induction b arbitrary: a) (auto simp: update_conv')

subsection \<open>What the stack does with one request\<close>

text \<open>
  The definitions unfolded when a request is run through the stack, and the sample
  requests.
\<close>

lemmas sample_defs =
  blank_def kettle_def with_key_def post_without_key_def post_without_description_def
  post_kettle_def get_first_page_def get_stats_def put_with_id_def put_price_def
  put_without_key_def put_own_id_def put_new_id_def delete_2_def get_2_def delete_7_def
  seed_def seed_products_def

lemmas run_defs =
  app_def app_stack_def rootHandler_def listProducts_def getProduct_def createProduct_def
  updateProduct_def deleteProduct_def logger_def authenticate_def validateProduct_def
  new_product_def json_error_def get_prop_def param_def header_def query_param_def
  toLowerCase_def toLowerChar_def spread_def Let_def

text \<open>
  For each of the paths under \<^verbatim>\<open>/api/products\<close> the first registration answers, so the
  result of the whole stack is that of the first handler.
\<close>

lemma app_get_item:
  assumes "req_method req = GET" and "path req = [''api'', ''products'', i]" and "i \<noteq> []"
  shows "app req s =
     (case find (\<lambda>p. get_prop p ''id'' = JStr i) (products s) of
        None \<Rightarrow> (json_error 404 ''Product not found'', s)
      | Some p \<Rightarrow> (\<lparr>status = 200, content = Json (JObj p)\<rparr>, s))"
  using assms by (simp add: app_def app_stack_def getProduct_def split: option.splits)

lemma app_post:
  assumes "req_method req = POST" and "path req = [''api'', ''products'']"
  shows "app req s =
     (\<lparr>status = 201, content = Json (JObj (new_product req))\<rparr>,
      s\<lparr>products := products s @ [new_product req]\<rparr>)"
  using assms by (simp add: app_def app_stack_def createProduct_def Let_def)


lemma app_delete:
  assumes "req_method req = DELETE" and "path req = [''api'', ''products'', i]" and "i \<noteq> []"
  shows "app req s =
     (case findIndex (\<lambda>p. get_prop p ''id'' = JStr i) (products s) of
        None \<Rightarrow> (json_error 404 ''Product not found'', s)
      | Some n \<Rightarrow>
          (\<lparr>status = 204, content = Empty\<rparr>,
           s\<lparr>products := take n (products s) @ drop (Suc n) (products s)\<rparr>))"
  using assms by (simp add: app_def app_stack_def deleteProduct_def split: option.splits)

lemma get_frame: "req_method req = GET \<Longrightarrow> products (snd (app req s)) = products s"
  by (simp add: app_def app_stack_def rootHandler_def listProducts_def getProduct_def logger_def
      listFiltered_def productStats_def Let_def split: option.splits sum.splits)

text \<open>
  The only ways in which a request changes the collection: a create appends one record,
  an update replaces one record by its merge with the body, a delete drops one record.
\<close>

lemma app_products_post:
  assumes "req_method req = POST"
  shows "products (snd (app req s)) =
     (if match_path [Lit ''api'', Lit ''products''] (path req) = None then products s
      else products s @ [new_product req])"
  using assms
  by (simp add: app_def app_stack_def createProduct_def logger_def Let_def split: option.splits)

lemma app_products_put:
  assumes "req_method req = PUT"
  shows "products (snd (app req s)) =
     (case update_target req s of
        None \<Rightarrow> products s
      | Some n \<Rightarrow> (products s)[n := spread (products s ! n) (body req)])"
  using assms
  by (simp add: app_def app_stack_def update_target_def updateProduct_def logger_def Let_def
      split: option.splits)

lemma app_products_other:
  assumes "req_method req \<noteq> POST" and "req_method req \<noteq> PUT"
  shows "products (snd (app req s)) = products s
       \<or> (\<exists>n. products (snd (app req s)) = take n (products s) @ drop (Suc n) (products s))"
proof (cases "req_method req")
  case GET
  then show ?thesis by (simp add: get_frame)
next
  case POST
  with assms show ?thesis by simp
next
  case PUT
  with assms show ?thesis by simp
next
  case DELETE
  then show ?thesis
    by (auto simp: app_def app_stack_def deleteProduct_def logger_def split: option.splits)
next
  case PATCH
  then show ?thesis by (simp add: app_def app_stack_def logger_def)
qed



subsection \<open>Identifiers stay unique exactly under admissible requests\<close>

lemma update_target_bound: "update_target req s = Some n \<Longrightarrow> n < length (products s)"
  by (auto simp: update_target_def dest: findIndex_Some split: if_splits option.splits)

lemma distinct_list_update_iff:
  assumes "distinct xs" and "n < length xs"
  shows "distinct (xs[n := y]) \<longleftrightarrow> y \<notin> set (take n xs @ drop (Suc n) xs)"
proof -
  from assms(1) have "distinct (take n xs @ drop (Suc n) xs)"
    by (rule distinct_remove_nth)
  moreover from assms(2) have "xs[n := y] = take n xs @ y # drop (Suc n) xs"
    by (rule upd_conv_take_nth_drop)
  ultimately show ?thesis by auto
qed

lemma unique_ids_seed: "unique_ids seed"
  by (simp add: unique_ids_def product_ids_def seed_def seed_products_def get_prop_def)

lemma unique_ids_step_iff:
  assumes u: "unique_ids s"
  shows "unique_ids (snd (app req s)) \<longleftrightarrow> admissible req s"
proof -
  let ?id = "\<lambda>p. get_prop p ''id''"
  from u have d: "distinct (map ?id (products s))"
    by (simp add: unique_ids_def product_ids_def)
  show ?thesis
  proof (cases "req_method req = POST")
    case True
    with d show ?thesis
      by (simp add: unique_ids_def product_ids_def admissible_def app_products_post
          new_product_def get_prop_def)
  next
    case not_post: False
    show ?thesis
    proof (cases "req_method req = PUT")
      case True
      show ?thesis
      proof (cases "update_target req s")
        case None
        with True d show ?thesis
          by (simp add: unique_ids_def product_ids_def admissible_def app_products_put)
      next
        case (Some n)
        let ?merged = "spread (products s ! n) (body req)"
        from Some have "n < length (map ?id (products s))"
          by (simp add: update_target_bound)
        from distinct_list_update_iff [OF d this, of "?id ?merged"]
        have "distinct (map ?id ((products s)[n := ?merged])) \<longleftrightarrow>
            ?id ?merged \<notin> set (map ?id (take n (products s) @ drop (Suc n) (products s)))"
          by (simp add: map_update take_map drop_map)
        with True Some show ?thesis
          by (simp add: unique_ids_def product_ids_def admissible_def app_products_put)
      qed
    next
      case False
      with not_post have a: "admissible req s"
        by (cases "req_method req") (simp_all add: admissible_def)
      from not_post False app_products_other [of req s]
      consider "products (snd (app req s)) = products s"
        | n where "products (snd (app req s)) = take n (products s) @ drop (Suc n) (products s)"
        by blast
      then have "distinct (map ?id (products (snd (app req s))))"
      proof cases
        case 1
        with d show ?thesis by simp
      next
        case (2 n)
        from d have "distinct (take n (map ?id (products s)) @ drop (Suc n) (map ?id (products s)))"
          by (rule distinct_remove_nth)
        with 2 show ?thesis by (simp add: take_map drop_map)
      qed
      with a show ?thesis by (simp add: unique_ids_def product_ids_def)
    qed
  qed
qed

lemma unique_ids_run:
  "unique_ids s \<Longrightarrow> admissible_run reqs s \<Longrightarrow> unique_ids (run reqs s)"
  by (induction reqs arbitrary: s) (auto simp: unique_ids_step_iff)

subsection \<open>C1: requests without the API key\<close>

text \<open>
  C1 says that every \<^verbatim>\<open>POST /api/products\<close> and \<^verbatim>\<open>PUT /api/products/:id\<close> without the right
  \<^verbatim>\<open>x-api-key\<close> is answered 401 with \<^verbatim>\<open>{error: "Unauthorized: Invalid API key"}\<close> and leaves
  the collection unchanged. On the seeded collection the program answers a \<^verbatim>\<open>POST\<close> without
  the header with 201 and appends the record, and answers a \<^verbatim>\<open>PUT\<close> without the header with
  200 and overwrites product 1: the registrations of lines 62 and 70 come first in the
  stack and carry no middleware. The chains registered at lines 153 and 160, which the
  request never reaches, answer 401 on the same requests.
\<close>

theorem post_without_key_is_accepted:
  "app post_without_key seed =
     (\<lparr>status = 201,
       content = Json (JObj ((''id'', JStr ''9b1deb4d-3b7d-4bad-9bdd-2b0d7b3dcb6d'') # kettle))\<rparr>,
      seed\<lparr>products :=
        seed_products @ [(''id'', JStr ''9b1deb4d-3b7d-4bad-9bdd-2b0d7b3dcb6d'') # kettle]\<rparr>)
   \<and> app put_without_key seed =
     (\<lparr>status = 200, content = Json (JObj ((''id'', JStr ''1'') # kettle))\<rparr>,
      seed\<lparr>products := seed_products[0 := (''id'', JStr ''1'') # kettle]\<rparr>)
   \<and> run_chain [authenticate, validateProduct, createProduct] post_without_key seed =
     (Send (json_error 401 ''Unauthorized: Invalid API key''), seed)
   \<and> run_chain [authenticate, validateProduct, updateProduct] put_without_key seed =
     (Send (json_error 401 ''Unauthorized: Invalid API key''), seed)"
  by (simp add: sample_defs run_defs)

subsection \<open>C2: requests with an invalid body\<close>

text \<open>
  C2 says that every \<^verbatim>\<open>POST /api/products\<close> and \<^verbatim>\<open>PUT /api/products/:id\<close> with the right key
  and a body that fails validation is answered 400 with
  \<^verbatim>\<open>{error: "ValidationError: Invalid product data"}\<close> and leaves the collection unchanged.
  On the seeded collection the program answers a \<^verbatim>\<open>POST\<close> whose body has no \<^verbatim>\<open>description\<close>
  with 201 and stores a record whose description is \<^verbatim>\<open>undefined\<close>, and answers a \<^verbatim>\<open>PUT\<close> whose
  body holds only a price with 200 and stores the new price. The chains of lines 153 and
  160 answer 400 on the same requests.
\<close>

theorem post_without_description_is_accepted:
  "app post_without_description seed =
     (\<lparr>status = 201,
       content = Json (JObj [(''id'', JStr ''9b1deb4d-3b7d-4bad-9bdd-2b0d7b3dcb6d''),
                             (''name'', JStr ''Kettle''), (''description'', JUndefined),
                             (''price'', JNum 30), (''category'', JStr ''kitchen''),
                             (''inStock'', JBool True)])\<rparr>,
      seed\<lparr>products :=
        seed_products @ [[(''id'', JStr ''9b1deb4d-3b7d-4bad-9bdd-2b0d7b3dcb6d''),
                          (''name'', JStr ''Kettle''), (''description'', JUndefined),
                          (''price'', JNum 30), (''category'', JStr ''kitchen''),
                          (''inStock'', JBool True)]]\<rparr>)
   \<and> status (fst (app put_price seed)) = 200
   \<and> get_prop (products (snd (app put_price seed)) ! 0) ''price'' = JNum 999
   \<and> run_chain [authenticate, validateProduct, createProduct] post_without_description seed =
     (Send (json_error 400 ''ValidationError: Invalid product data''), seed)
   \<and> run_chain [authenticate, validateProduct, updateProduct] put_price seed =
     (Send (json_error 400 ''ValidationError: Invalid product data''), seed)"
  by (simp add: sample_defs run_defs)

subsection \<open>C3: the list and its pagination\<close>

text \<open>
  C3 says that \<^verbatim>\<open>GET /api/products\<close> answers 200 with \<^verbatim>\<open>{total, page, limit, products}\<close>, the
  products being the requested page of the filtered list. On the seeded collection
  \<^verbatim>\<open>GET /api/products?page=1&limit=2\<close> is answered by the handler of line 50 with the bare
  array of all three products; the handler of line 127, which would answer with total 3
  and the first two products, is never reached.
\<close>

theorem list_ignores_pagination:
  "app get_first_page seed =
     (\<lparr>status = 200, content = Json (JArr (map JObj seed_products))\<rparr>, seed)
   \<and> listFiltered get_first_page seed =
     (Send \<lparr>status = 200,
            content = Json (JObj [(''total'', JNum 3), (''page'', JNum 1), (''limit'', JNum 2),
                                  (''products'', JArr (map JObj (take 2 seed_products)))])\<rparr>,
      seed)"
  by (simp add: sample_defs run_defs listFiltered_def paginate_def parse_or_def parseInt_def
      is_space_def digit_of_def number_def to_index_def slice_def)

subsection \<open>C4: the statistics\<close>

text \<open>
  C4 says that \<^verbatim>\<open>GET /api/products/stats\<close> answers 200 with the number of products per
  category. On the seeded collection the request is matched by \<^verbatim>\<open>/api/products/:id\<close> of line
  55 with \<^verbatim>\<open>stats\<close> as the identifier, and the answer is 404 \<^verbatim>\<open>{error: "Product not found"}\<close>;
  the handler of line 144, which would answer \<^verbatim>\<open>{electronics: 2, kitchen: 1}\<close>, is never
  reached.
\<close>

theorem stats_is_taken_for_an_id:
  "app get_stats seed = (json_error 404 ''Product not found'', seed)
   \<and> productStats get_stats seed =
     (Send \<lparr>status = 200,
            content = Json (JObj [(''electronics'', JNum 2), (''kitchen'', JNum 1)])\<rparr>,
      seed)"
  by (simp add: sample_defs run_defs productStats_def count_category_def inherited_names_def
      or_zero_plus_one_def)

subsection \<open>C5: the routes registered twice\<close>




subsection \<open>C6: unique identifiers\<close>

text \<open>
  C6, as amended: the seeded collection has pairwise different identifiers, and so has the
  collection after any sequence of requests in which every create is given an identifier
  that is not in the collection at that moment and no update leaves in its record the
  identifier of another record (a body without \<^verbatim>\<open>id\<close>, with the record's own identifier or
  with one that no record has is such an update). These conditions are exact: on a
  collection with pairwise different identifiers a request keeps them pairwise different
  if and only if it meets them.
\<close>

theorem unique_ids_preserved:
  "unique_ids seed
   \<and> (admissible_run reqs seed \<longrightarrow> unique_ids (run reqs seed))
   \<and> (unique_ids s \<longrightarrow> (unique_ids (snd (app req s)) \<longleftrightarrow> admissible req s))"
  using unique_ids_seed unique_ids_run unique_ids_step_iff by blast

text \<open>
  C6 as stated, that no update can make two products share an identifier, fails: on the
  seeded collection \<^verbatim>\<open>PUT /api/products/1\<close> with \<^verbatim>\<open>"id": "2"\<close> in an otherwise valid body leaves
  two products with the identifier 2.
\<close>

theorem update_can_duplicate_an_id:
  "unique_ids seed \<and> \<not> unique_ids (snd (app put_with_id seed))"
  by (simp add: unique_ids_def product_ids_def sample_defs run_defs)

text \<open>
  The amended C6 on the seeded collection: a create, an update of the price, an update
  that sends the record's own identifier, an update that sends the new identifier 99 and a
  delete, in this order; and the update that sends the identifier of product 2 to product
  1, which does not meet the condition and breaks the invariant.
\<close>

theorem unique_ids_preserved_witness:
  "admissible_run [post_kettle, put_price, put_own_id, put_new_id, delete_2] seed
   \<and> unique_ids (run [post_kettle, put_price, put_own_id, put_new_id, delete_2] seed)
   \<and> product_ids (run [post_kettle, put_price, put_own_id, put_new_id, delete_2] seed) =
       [JStr ''99'', JStr ''3'', JStr ''9b1deb4d-3b7d-4bad-9bdd-2b0d7b3dcb6d'']
   \<and> unique_ids seed
   \<and> \<not> admissible put_with_id seed
   \<and> \<not> unique_ids (snd (app put_with_id seed))"
proof -
  have a: "admissible_run [post_kettle, put_price, put_own_id, put_new_id, delete_2] seed"
    by (simp add: admissible_def update_target_def product_ids_def sample_defs run_defs)
  have l: "product_ids (run [post_kettle, put_price, put_own_id, put_new_id, delete_2] seed) =
      [JStr ''99'', JStr ''3'', JStr ''9b1deb4d-3b7d-4bad-9bdd-2b0d7b3dcb6d'']"
    by (simp add: product_ids_def sample_defs run_defs)
  have n: "\<not> admissible put_with_id seed"
    by (simp add: admissible_def update_target_def sample_defs run_defs)
  from a l n
    unique_ids_preserved [of "[post_kettle, put_price, put_own_id, put_new_id, delete_2]" seed put_with_id]
  show ?thesis by blast
qed

subsection \<open>C7: update is a shallow merge\<close>



subsection \<open>C8: delete\<close>

text \<open>
  C8, as amended: \<^verbatim>\<open>DELETE /api/products/:id\<close> with an identifier that is not in the collection
  answers 404 and changes nothing; with an identifier that is in the collection it removes
  the first record that has it, keeps all other records in their order and answers 204 with
  an empty body; and if no later record has the same identifier, a following
  \<^verbatim>\<open>GET /api/products/:id\<close> for it answers 404.
\<close>

theorem delete_removes_first_match:
  assumes "req_method req = DELETE" and "path req = [''api'', ''products'', i]"
    and "req_method req' = GET" and "path req' = [''api'', ''products'', i]"
    and "i \<noteq> []"
  shows "(JStr i \<notin> set (product_ids s) \<longrightarrow>
            app req s = (json_error 404 ''Product not found'', s))
       \<and> (JStr i \<in> set (product_ids s) \<longrightarrow>
            (\<exists>before p after.
               products s = before @ p # after
               \<and> get_prop p ''id'' = JStr i
               \<and> JStr i \<notin> set (map (\<lambda>p. get_prop p ''id'') before)
               \<and> app req s =
                   (\<lparr>status = 204, content = Empty\<rparr>, s\<lparr>products := before @ after\<rparr>)
               \<and> (JStr i \<notin> set (map (\<lambda>p. get_prop p ''id'') after) \<longrightarrow>
                    app req' (s\<lparr>products := before @ after\<rparr>) =
                      (json_error 404 ''Product not found'', s\<lparr>products := before @ after\<rparr>))))"
proof (intro conjI impI)
  assume "JStr i \<notin> set (product_ids s)"
  then have "findIndex (\<lambda>p. get_prop p ''id'' = JStr i) (products s) = None"
    by (auto simp: findIndex_None product_ids_def image_iff)
  with assms show "app req s = (json_error 404 ''Product not found'', s)"
    by (simp add: app_delete)
next
  let ?P = "\<lambda>p. get_prop p ''id'' = JStr i"
  assume "JStr i \<in> set (product_ids s)"
  then have "findIndex ?P (products s) \<noteq> None"
    by (auto simp: findIndex_None product_ids_def image_iff)
  then obtain n where n: "findIndex ?P (products s) = Some n"
    by auto
  from findIndex_Some [OF n]
  have len: "n < length (products s)" and hit: "?P (products s ! n)"
    by auto
  let ?before = "take n (products s)" and ?after = "drop (Suc n) (products s)"
  from len have split: "products s = ?before @ (products s ! n) # ?after"
    by (simp add: id_take_nth_drop)
  from findIndex_before [OF n]
  have not_before: "JStr i \<notin> set (map (\<lambda>p. get_prop p ''id'') ?before)"
    by (auto simp: image_iff)
  from assms n have del: "app req s =
      (\<lparr>status = 204, content = Empty\<rparr>, s\<lparr>products := ?before @ ?after\<rparr>)"
    by (simp add: app_delete)
  have gone: "app req' (s\<lparr>products := ?before @ ?after\<rparr>) =
      (json_error 404 ''Product not found'', s\<lparr>products := ?before @ ?after\<rparr>)"
    if "JStr i \<notin> set (map (\<lambda>p. get_prop p ''id'') ?after)"
  proof -
    from that not_before have "\<forall>p\<in>set (?before @ ?after). \<not> ?P p"
      by (auto simp: image_iff)
    then have "find ?P (?before @ ?after) = None"
      by (simp only: find_None_iff_findIndex findIndex_None)
    with assms show ?thesis
      by (simp add: app_get_item)
  qed
  from split hit not_before del gone
  show "\<exists>before p after.
      products s = before @ p # after
      \<and> get_prop p ''id'' = JStr i
      \<and> JStr i \<notin> set (map (\<lambda>p. get_prop p ''id'') before)
      \<and> app req s = (\<lparr>status = 204, content = Empty\<rparr>, s\<lparr>products := before @ after\<rparr>)
      \<and> (JStr i \<notin> set (map (\<lambda>p. get_prop p ''id'') after) \<longrightarrow>
           app req' (s\<lparr>products := before @ after\<rparr>) =
             (json_error 404 ''Product not found'', s\<lparr>products := before @ after\<rparr>))"
    by blast
qed

text \<open>
  C8 as stated, that a get after the delete always answers 404, fails on a collection the
  program can reach: after \<^verbatim>\<open>PUT /api/products/1\<close> with \<^verbatim>\<open>"id": "2"\<close> two records have the
  identifier 2, \<^verbatim>\<open>DELETE /api/products/2\<close> answers 204 and removes one of them, and
  \<^verbatim>\<open>GET /api/products/2\<close> then answers 200.
\<close>

theorem get_after_delete_still_finds:
  "status (fst (app delete_2 (snd (app put_with_id seed)))) = 204
   \<and> status (fst (app get_2 (snd (app delete_2 (snd (app put_with_id seed)))))) = 200"
  by (simp add: sample_defs run_defs)

text \<open>
  The amended C8 on the seeded collection: deleting the absent product 7, and deleting
  product 2 and asking for it again.
\<close>

theorem delete_removes_first_match_witness:
  "req_method delete_7 = DELETE \<and> JStr ''7'' \<notin> set (product_ids seed)
   \<and> app delete_7 seed = (json_error 404 ''Product not found'', seed)
   \<and> JStr ''2'' \<in> set (product_ids seed)
   \<and> app delete_2 seed =
       (\<lparr>status = 204, content = Empty\<rparr>,
        seed\<lparr>products := [seed_products ! 0, seed_products ! 2]\<rparr>)
   \<and> app get_2 (seed\<lparr>products := [seed_products ! 0, seed_products ! 2]\<rparr>) =
       (json_error 404 ''Product not found'',
        seed\<lparr>products := [seed_products ! 0, seed_products ! 2]\<rparr>)"
  using delete_removes_first_match [of delete_7 "''7''" get_2 seed]
    delete_removes_first_match [of delete_2 "''2''" get_2 seed]
  by (simp add: product_ids_def sample_defs run_defs)

subsection \<open>C9: create, then get\<close>

text \<open>
  C9: a \<^verbatim>\<open>POST /api/products\<close> answers 201 with the created record and appends it at the end
  of the collection; the record has the identifier \<^verbatim>\<open>uuidv4()\<close> returned and the name,
  description, price, category and stock flag of the body; and a \<^verbatim>\<open>GET /api/products/:id\<close>
  with that identifier right after answers 200 with the same record. The identifier that
  \<^verbatim>\<open>uuidv4()\<close> returns is taken to be a non-empty string that is new to the collection.
\<close>

theorem create_then_get:
  assumes "req_method req = POST" and "path req = [''api'', ''products'']"
    and "uuid req \<noteq> []" and "JStr (uuid req) \<notin> set (product_ids s)"
    and "req_method req' = GET" and "path req' = [''api'', ''products'', uuid req]"
  shows "app req s =
           (\<lparr>status = 201, content = Json (JObj (new_product req))\<rparr>,
            s\<lparr>products := products s @ [new_product req]\<rparr>)
       \<and> app req' (s\<lparr>products := products s @ [new_product req]\<rparr>) =
           (\<lparr>status = 200, content = Json (JObj (new_product req))\<rparr>,
            s\<lparr>products := products s @ [new_product req]\<rparr>)
       \<and> get_prop (new_product req) ''id'' = JStr (uuid req)
       \<and> get_prop (new_product req) ''name'' = get_prop (body req) ''name''
       \<and> get_prop (new_product req) ''description'' = get_prop (body req) ''description''
       \<and> get_prop (new_product req) ''price'' = get_prop (body req) ''price''
       \<and> get_prop (new_product req) ''category'' = get_prop (body req) ''category''
       \<and> get_prop (new_product req) ''inStock'' = get_prop (body req) ''inStock''"
proof -
  let ?P = "\<lambda>p. get_prop p ''id'' = JStr (uuid req)"
  have mine: "?P (new_product req)"
    by (simp add: new_product_def get_prop_def)
  from assms(4) have "\<forall>p\<in>set (products s). \<not> ?P p"
    by (auto simp: product_ids_def image_iff)
  then have "find ?P (products s) = None"
    by (simp only: find_None_iff_findIndex findIndex_None)
  with mine have "find ?P (products s @ [new_product req]) = Some (new_product req)"
    by (simp add: find_append_None)
  with assms show ?thesis
    by (simp add: app_post app_get_item) (simp add: new_product_def get_prop_def)
qed

text \<open>
  C9 on the seeded collection: creating the kettle and fetching it.
\<close>

theorem create_then_get_witness:
  "req_method post_kettle = POST \<and> JStr (uuid post_kettle) \<notin> set (product_ids seed)
   \<and> status (fst (app post_kettle seed)) = 201
   \<and> app (get_2\<lparr>path := [''api'', ''products'', uuid post_kettle]\<rparr>) (snd (app post_kettle seed)) =
       (\<lparr>status = 200,
         content = Json (JObj ((''id'', JStr ''9b1deb4d-3b7d-4bad-9bdd-2b0d7b3dcb6d'') # kettle))\<rparr>,
        snd (app post_kettle seed))"
  using create_then_get [of post_kettle seed "get_2\<lparr>path := [''api'', ''products'', uuid post_kettle]\<rparr>"]
  by (simp add: product_ids_def sample_defs run_defs)

subsection \<open>C10: reading changes nothing\<close>

text \<open>
  C10: whatever its path and query, a \<^verbatim>\<open>GET\<close> request leaves the collection as it was. The
  two handlers that no request reaches, the filtered list and the statistics, leave the
  whole state as it was too.
\<close>

theorem get_leaves_products:
  assumes "req_method req = GET"
  shows "products (snd (app req s)) = products s
       \<and> snd (listFiltered req s) = s \<and> snd (productStats req s) = s"
  using assms
  by (simp add: get_frame productStats_def)
     (simp add: listFiltered_def Let_def split: option.splits sum.splits)

text \<open>
  C10 on the seeded collection, for \<^verbatim>\<open>/api/products/stats\<close>, for a paginated list and for
  \<^verbatim>\<open>/\<close>.
\<close>

theorem get_leaves_products_witness:
  "req_method get_stats = GET \<and> products (snd (app get_stats seed)) = seed_products
   \<and> products (snd (app get_first_page seed)) = seed_products
   \<and> products (snd (app blank seed)) = seed_products"
  using get_leaves_products [of get_stats seed] get_leaves_products [of get_first_page seed]
    get_leaves_products [of blank seed]
  by (simp add: sample_defs)

end
